theory Spec2Isabelle
  imports Complex_Main "HOL-Library.AList" "HOL-Library.List_Lexorder" "HOL-Library.Char_ord"
begin

section \<open>Exceptions\<close>

text \<open>
  The Python exceptions that the modelled functions raise, catch or let through.
  Every one of them except \<open>KeyboardInterrupt\<close> derives from \<open>Exception\<close>, so
  \<^verbatim>\<open>except Exception\<close> catches exactly the \<open>catchable\<close> ones.
\<close>

datatype error =
    CouldntDecodeError
  | CalledProcessError
  | ZeroDivisionError
  | FileNotFoundError
  | ValueError
  | TypeError
  | AttributeError
  | KeyError
  | NotFittedError
  | OSError
  | KeyboardInterrupt

definition catchable :: "error \<Rightarrow> bool" where
  "catchable e = (e \<noteq> KeyboardInterrupt)"

section \<open>Audio clips (pydub's AudioSegment, at its millisecond granularity)\<close>

text \<open>
  An \<open>AudioSegment\<close> is indexed and measured in milliseconds: \<open>len(audio)\<close> is its
  duration in ms, \<open>audio[s:e]\<close> the clip from ms \<open>s\<close> to ms \<open>e\<close>,
  \<open>audio * n\<close> the clip repeated \<open>n\<close> times. A clip is modelled as the list of
  its milliseconds.
\<close>

type_synonym 'a audio = "'a list"

definition audio_mul :: "'a audio \<Rightarrow> nat \<Rightarrow> 'a audio" where
  \<comment> \<open>\<open>audio * n\<close>\<close>
  "audio_mul audio n = concat (replicate n audio)"

definition audio_slice :: "'a audio \<Rightarrow> nat \<Rightarrow> nat \<Rightarrow> 'a audio" where
  \<comment> \<open>\<open>audio[start_ms:end_ms]\<close>\<close>
  "audio_slice audio start_ms end_ms = take (end_ms - start_ms) (drop start_ms audio)"

definition audio_prefix :: "'a audio \<Rightarrow> nat \<Rightarrow> 'a audio" where
  \<comment> \<open>\<open>audio[:end_ms]\<close>\<close>
  "audio_prefix audio end_ms = take end_ms audio"

definition audio_suffix :: "'a audio \<Rightarrow> nat \<Rightarrow> 'a audio" where
  \<comment> \<open>\<open>audio[-n:]\<close> for \<open>n > 0\<close>: a negative start counts from the end\<close>
  "audio_suffix audio n = drop (length audio - n) audio"

section \<open>File names\<close>

definition digit_char :: "nat \<Rightarrow> char" where
  "digit_char d = char_of (48 + d)"

fun str_nat :: "nat \<Rightarrow> string" where
  "str_nat n = (if n < 10 then [digit_char n] else str_nat (n div 10) @ [digit_char (n mod 10)])"

declare str_nat.simps [simp del]

definition splitext_root :: "string \<Rightarrow> string" where
  \<comment> \<open>\<open>os.path.splitext(p)[0]\<close> (posixpath): cut the extension of the last path
      component at its last dot, unless only dots come before that dot\<close>
  "splitext_root p =
     (let name = rev (takeWhile (\<lambda>c. c \<noteq> CHR ''/'') (rev p));
          dir = take (length p - length name) p;
          ext = takeWhile (\<lambda>c. c \<noteq> CHR ''.'') (rev name)
      in if length ext = length name then p
         else let root_name = take (length name - length ext - 1) name
              in if list_all (\<lambda>c. c = CHR ''.'') root_name then p else dir @ root_name)"

definition basename :: "string \<Rightarrow> string" where
  \<comment> \<open>\<open>os.path.basename(p)\<close>\<close>
  "basename p = rev (takeWhile (\<lambda>c. c \<noteq> CHR ''/'') (rev p))"

definition endswith :: "string \<Rightarrow> string \<Rightarrow> bool" where
  \<comment> \<open>\<open>s.endswith(suffix)\<close>\<close>
  "endswith s suffix = (length suffix \<le> length s \<and> drop (length s - length suffix) s = suffix)"

section \<open>Segmentation (backend/src/segmentation.py)\<close>

definition twenty_sec_ms :: nat where
  "twenty_sec_ms = 20 * 1000"

text \<open>
  \<open>process_short_audio\<close> and \<open>process_long_audio\<close> export WAV files into the output
  folder; the model returns the exported (file name, clip) pairs in export order.
  \<open>target_ms // duration_ms\<close> raises \<open>ZeroDivisionError\<close> on a zero divisor.
\<close>

definition process_short_audio ::
  "'a audio \<Rightarrow> string \<Rightarrow> nat \<Rightarrow> nat \<Rightarrow> error + (string \<times> 'a audio) list" where
  "process_short_audio audio filename duration_ms target_ms =
     (if duration_ms = 0 then Inl ZeroDivisionError
      else let repeats = (target_ms div duration_ms) + 1;
               new_audio = audio_prefix (audio_mul audio repeats) target_ms;
               output_filename = splitext_root filename @ ''.wav''
           in Inr [(output_filename, new_audio)])"

definition segment_filename :: "string \<Rightarrow> nat \<Rightarrow> string" where
  \<comment> \<open>\<open>f"{os.path.splitext(filename)[0]}_segment{k}.wav"\<close>\<close>
  "segment_filename filename k = splitext_root filename @ ''_segment'' @ str_nat k @ ''.wav''"

definition process_long_audio ::
  "'a audio \<Rightarrow> string \<Rightarrow> nat \<Rightarrow> nat \<Rightarrow> error + (string \<times> 'a audio) list" where
  "process_long_audio audio filename duration_ms segment_ms =
     (if segment_ms = 0 then Inl ZeroDivisionError
      else let num_segments = duration_ms div segment_ms;
               full = map (\<lambda>i. let start_ms = i * segment_ms;
                                    end_ms = start_ms + segment_ms
                                in (segment_filename filename (i + 1),
                                    audio_slice audio start_ms end_ms))
                          [0..<num_segments];
               remainder_ms = duration_ms mod segment_ms
           in if remainder_ms > 0
              then let last_segment = audio_suffix audio remainder_ms;
                       repeats = (segment_ms div remainder_ms) + 1;
                       last_segment' = audio_prefix (audio_mul last_segment repeats) segment_ms
                   in Inr (full @ [(segment_filename filename (num_segments + 1), last_segment')])
              else Inr full)"

text \<open>One row of the results frame: the columns the aggregator and the audit file read.\<close>

record row =
  file_name :: string
  Prediction :: int
  Probability :: real

text \<open>
  The world a request runs in: the regular files outside the processed-audio folder, the
  processed-audio folder itself (\<open>None\<close> while the directory does not exist, else its
  files), the order of the calls made to the decoder and to FFmpeg, and the audit file
  \<open>outputs/predictions.csv\<close> that \<open>save_predictions\<close> writes.
\<close>

datatype call = Decode string | Reencode string string

record 'a world =
  files :: "string set"
  folder :: "(string \<times> 'a audio) list option"
  calls :: "call list"
  predictions_csv :: "row list option"

text \<open>
  What the libraries and the operating system answer: \<open>from_file\<close> is
  \<open>AudioSegment.from_file\<close>, \<open>ffmpeg\<close> the \<open>subprocess.run\<close> of FFmpeg with
  \<open>check=True\<close> (\<open>None\<close> when it exits with status 0), \<open>rmtree_fault\<close> and
  \<open>remove_fault\<close> the exception, if any, of \<open>shutil.rmtree\<close> and \<open>os.remove\<close>.
\<close>

record 'a os_env =
  from_file :: "string \<Rightarrow> error + 'a audio"
  ffmpeg :: "string \<Rightarrow> string \<Rightarrow> error option"
  rmtree_fault :: "'a world \<Rightarrow> error option"
  remove_fault :: "'a world \<Rightarrow> string \<Rightarrow> error option"

definition reencode_audio ::
  "('a, 'z) os_env_scheme \<Rightarrow> string \<Rightarrow> 'a world \<Rightarrow> (error + string option) \<times> 'a world" where
  "reencode_audio env file_path w =
     (let base = splitext_root file_path;
          reencoded_path = base @ ''_reencoded.wav'';
          w1 = w\<lparr>calls := calls w @ [Reencode file_path reencoded_path]\<rparr>
      in case ffmpeg env file_path reencoded_path of
           None \<Rightarrow> (Inr (Some reencoded_path), w1\<lparr>files := insert reencoded_path (files w1)\<rparr>)
         | Some e \<Rightarrow> if e = CalledProcessError then (Inr None, w1) else (Inl e, w1))"

definition load_audio ::
  "('a, 'z) os_env_scheme \<Rightarrow> string \<Rightarrow> 'a world \<Rightarrow> (error + 'a audio option) \<times> 'a world" where
  \<comment> \<open>the \<open>try\<close> block of \<open>process_single_audio_file\<close>; \<open>Inr None\<close> is its early \<open>return\<close>\<close>
  "load_audio env file_path w =
     (let w1 = w\<lparr>calls := calls w @ [Decode file_path]\<rparr>
      in case from_file env file_path of
           Inr audio \<Rightarrow> (Inr (Some audio), w1)
         | Inl e \<Rightarrow>
             if e \<noteq> CouldntDecodeError then (Inl e, w1)
             else (case reencode_audio env file_path w1 of
                     (Inl e', w2) \<Rightarrow> (Inl e', w2)
                   | (Inr None, w2) \<Rightarrow> (Inr None, w2)
                   | (Inr (Some reencoded_path), w2) \<Rightarrow>
                       let w3 = w2\<lparr>calls := calls w2 @ [Decode reencoded_path]\<rparr>
                       in (case from_file env reencoded_path of
                             Inr audio \<Rightarrow> (Inr (Some audio), w3)
                           | Inl e2 \<Rightarrow> if e2 = CouldntDecodeError then (Inr None, w3)
                                       else (Inl e2, w3))))"

definition clean_folder :: "('a, 'z) os_env_scheme \<Rightarrow> 'a world \<Rightarrow> (error + unit) \<times> 'a world" where
  \<comment> \<open>\<open>if os.path.exists(output_folder): shutil.rmtree(output_folder)\<close>, then \<open>os.makedirs\<close>\<close>
  "clean_folder env w =
     (case folder w of
        None \<Rightarrow> (Inr (), w\<lparr>folder := Some []\<rparr>)
      | Some _ \<Rightarrow> (case rmtree_fault env w of
                     Some e \<Rightarrow> (Inl e, w)
                   | None \<Rightarrow> (Inr (), w\<lparr>folder := Some []\<rparr>)))"

definition export_all :: "(string \<times> 'a audio) list \<Rightarrow> 'a world \<Rightarrow> 'a world" where
  \<comment> \<open>each export writes its file into the folder, replacing a file of the same name\<close>
  "export_all exports w =
     w\<lparr>folder := map_option (\<lambda>fs. foldl (\<lambda>acc (n, a). AList.update n a acc) fs exports)
                             (folder w)\<rparr>"

definition pad_or_split :: "'a audio \<Rightarrow> string \<Rightarrow> error + (string \<times> 'a audio) list" where
  \<comment> \<open>the dispatch on the duration that ends \<open>process_single_audio_file\<close>\<close>
  "pad_or_split audio file_path =
     (let duration_ms = length audio
      in if duration_ms < twenty_sec_ms
         then process_short_audio audio (basename file_path) duration_ms twenty_sec_ms
         else process_long_audio audio (basename file_path) duration_ms twenty_sec_ms)"

definition process_single_audio_file ::
  "('a, 'z) os_env_scheme \<Rightarrow> string \<Rightarrow> 'a world \<Rightarrow> (error + unit) \<times> 'a world" where
  "process_single_audio_file env file_path w =
     (if file_path \<notin> files w then (Inr (), w)
      else case clean_folder env w of
             (Inl e, w1) \<Rightarrow> (Inl e, w1)
           | (Inr _, w1) \<Rightarrow>
               (case load_audio env file_path w1 of
                  (Inl e, w2) \<Rightarrow> (Inl e, w2)
                | (Inr None, w2) \<Rightarrow> (Inr (), w2)
                | (Inr (Some audio), w2) \<Rightarrow>
                    (case pad_or_split audio file_path of
                       Inl e \<Rightarrow> (Inl e, w2)
                     | Inr exports \<Rightarrow> (Inr (), export_all exports w2))))"


section \<open>Feature vectors\<close>

text \<open>
  The feature frames of one segment have a single row: a list of named columns in column
  order, \<open>None\<close> standing for NaN. \<open>pd.concat([a, b], axis=1)\<close> appends the columns.
\<close>

type_synonym fvec = "(string \<times> real option) list"

text \<open>
  The collaborators of the pipeline: the ASR model loader and recogniser, the acoustic and
  linguistic feature extractors, and the scikit-learn scaler and classifier that
  \<open>load_model_and_scaler\<close> read from disk. \<open>scaler_fitted\<close> holds the fitted
  parameters of the scaler, \<open>None\<close> for a scaler that was never fit.
\<close>

record ('a, 'p) env = "'a os_env" +
  from_pretrained :: "string \<Rightarrow> error option"
  recognise :: "string \<Rightarrow> string \<times> 'a audio \<Rightarrow> error + string"
  extract_all_features :: "string \<times> 'a audio \<Rightarrow> error + fvec"
  extract_acoustic_features :: "string \<Rightarrow> error + fvec"
  lftk_extract :: "string \<Rightarrow> string \<Rightarrow> error + fvec"
  all_features :: "string list"
  scaler_fitted :: "'p option"
  scaler_fit :: "fvec \<Rightarrow> 'p"
  scaler_apply :: "'p \<Rightarrow> fvec \<Rightarrow> error + real option list"
  feature_names_in :: "string list"
  model_predict :: "real option list \<Rightarrow> error + int"
  model_predict_proba :: "real option list \<Rightarrow> error + real"

section \<open>Transcription (backend/src/transcription.py)\<close>

definition language_models :: "string list" where
  "language_models = [''en'', ''de'', ''es'', ''zh'', ''el'', ''ar'']"

definition load_language_model :: "('a, 'p) env \<Rightarrow> string \<Rightarrow> error + string option" where
  \<comment> \<open>the result is what \<open>language_models[lang]["tokenizer"]\<close> and \<open>["model"]\<close> hold
      afterwards: the loaded pair, or \<open>None\<close> after a failed load\<close>
  "load_language_model env language_code =
     (if language_code \<notin> set language_models then Inl ValueError
      else case from_pretrained env language_code of
             None \<Rightarrow> Inr (Some language_code)
           | Some e \<Rightarrow> if catchable e then Inr None else Inl e)"

definition is_space :: "char \<Rightarrow> bool" where
  "is_space c = (let n = (of_char c :: nat) in (9 \<le> n \<and> n \<le> 13) \<or> (28 \<le> n \<and> n \<le> 32))"

definition py_strip :: "string \<Rightarrow> string" where
  \<comment> \<open>\<open>s.strip()\<close>, on ASCII white space\<close>
  "py_strip s = rev (dropWhile is_space (rev (dropWhile is_space s)))"

definition py_lower :: "string \<Rightarrow> string" where
  \<comment> \<open>\<open>s.lower()\<close>, on ASCII letters\<close>
  "py_lower s =
     map (\<lambda>c. if CHR ''A'' \<le> c \<and> c \<le> CHR ''Z'' then char_of (of_char c + (32::nat)) else c) s"

definition transcribe_audio ::
  "('a, 'p) env \<Rightarrow> string \<times> 'a audio \<Rightarrow> string option \<Rightarrow> error + string option" where
  \<comment> \<open>calling a \<open>None\<close> tokenizer raises \<open>TypeError\<close> inside the \<open>try\<close>;
      \<open>except Exception\<close> turns every catchable failure into \<open>return None\<close>\<close>
  "transcribe_audio env file tokenizer =
     (case (case tokenizer of
              None \<Rightarrow> Inl TypeError
            | Some m \<Rightarrow> recognise env m file) of
        Inr transcription \<Rightarrow> Inr (Some (py_strip (py_lower transcription)))
      | Inl e \<Rightarrow> if catchable e then Inr None else Inl e)"

section \<open>Linguistic features (backend/src/linguistic_extraction.py)\<close>

definition nan_features :: "('a, 'p) env \<Rightarrow> fvec" where
  \<comment> \<open>\<open>pd.DataFrame([{f: float("nan") for f in _all_features}])\<close>\<close>
  "nan_features env = map (\<lambda>f. (f, None)) (all_features env)"

definition extract_linguistic_features ::
  "('a, 'p) env \<Rightarrow> string option \<Rightarrow> string \<Rightarrow> error + fvec" where
  \<comment> \<open>\<open>transcription.strip()\<close> is evaluated before the \<open>try\<close>: on \<open>None\<close> it raises
      \<open>AttributeError\<close>\<close>
  "extract_linguistic_features env transcription lang_code =
     (case transcription of
        None \<Rightarrow> Inl AttributeError
      | Some t \<Rightarrow>
          if py_strip t = [] then Inr (nan_features env)
          else (case lftk_extract env t lang_code of
                  Inr features \<Rightarrow> Inr features
                | Inl e \<Rightarrow> if catchable e then Inr (nan_features env) else Inl e))"

section \<open>Scoring (server/server/prediction.py)\<close>

definition scaler_transform :: "('a, 'p) env \<Rightarrow> fvec \<Rightarrow> error + real option list" where
  \<comment> \<open>\<open>scaler.transform(X)\<close>: scikit-learn raises \<open>NotFittedError\<close> on an unfitted scaler\<close>
  "scaler_transform env X =
     (case scaler_fitted env of
        None \<Rightarrow> Inl NotFittedError
      | Some p \<Rightarrow> scaler_apply env p X)"

definition scaler_fit_transform :: "('a, 'p) env \<Rightarrow> fvec \<Rightarrow> error + real option list" where
  \<comment> \<open>\<open>scaler.fit_transform(X)\<close>: fit on \<open>X\<close>, then transform \<open>X\<close>\<close>
  "scaler_fit_transform env X = scaler_apply env (scaler_fit env X) X"

definition select_columns :: "fvec \<Rightarrow> string list \<Rightarrow> error + fvec" where
  \<comment> \<open>\<open>features_df[names]\<close>: \<open>KeyError\<close> when a name is not a column\<close>
  "select_columns df names =
     (if list_all (\<lambda>n. n \<in> set (map fst df)) names
      then Inr (concat (map (\<lambda>n. filter (\<lambda>c. fst c = n) df) names))
      else Inl KeyError)"

definition predict :: "('a, 'p) env \<Rightarrow> fvec \<Rightarrow> error + int \<times> real" where
  "predict env combined_features =
     (case scaler_transform env combined_features of
        Inl e \<Rightarrow> Inl e
      | Inr scaled_features \<Rightarrow>
          if length scaled_features \<noteq> length combined_features then Inl ValueError
          else let significant_features = feature_names_in env;
                   features_df = zip (map fst combined_features) scaled_features
               in (case select_columns features_df significant_features of
                     Inl e \<Rightarrow> Inl e
                   | Inr selected_features \<Rightarrow>
                       (case model_predict env (map snd selected_features) of
                          Inl e \<Rightarrow> Inl e
                        | Inr predictions \<Rightarrow>
                            (case model_predict_proba env (map snd selected_features) of
                               Inl e \<Rightarrow> Inl e
                             | Inr probabilities \<Rightarrow> Inr (predictions, probabilities)))))"

section \<open>Weighted majority voting (server/server/prediction.py)\<close>

definition weighted_majority_voting :: "row list \<Rightarrow> int" where
  "weighted_majority_voting df =
     (let weighted_sum_1 = sum_list (map Probability (filter (\<lambda>r. Prediction r = 1) df));
          weighted_sum_0 = sum_list (map (\<lambda>r. 1 - Probability r)
                                         (filter (\<lambda>r. Prediction r = 0) df))
      in if weighted_sum_1 > weighted_sum_0 then 1 else 0)"

text \<open>
  The rule in the specification's words: each segment adds its own confidence to the sum
  of the direction it voted for.
\<close>

fun direction_sums :: "row list \<Rightarrow> real \<times> real" where
  "direction_sums [] = (0, 0)"
| "direction_sums (r # rs) =
     (let (pos, neg) = direction_sums rs
      in if Prediction r = 1 then (pos + Probability r, neg)
         else if Prediction r = 0 then (pos, neg + (1 - Probability r))
         else (pos, neg))"


section \<open>The pipeline (backend/src/prediction_script.py)\<close>

text \<open>
  The orchestrator is \<open>predict_final_classification\<close> of
  backend/src/prediction_script.py (server/server/prediction_script.py has the same
  \<open>try\<close> block). The \<open>predict\<close>, \<open>save_predictions\<close> and
  \<open>weighted_majority_voting\<close> it calls are those of server/server/prediction.py, the
  only file that defines them. The two variants differ in the \<open>finally\<close> block: the
  backend one deletes through \<open>safe_delete_file\<close>, modelled here; the server one
  calls \<open>os.remove\<close> unguarded.
\<close>

definition list_segments :: "'a world \<Rightarrow> error + (string \<times> 'a audio) list" where
  \<comment> \<open>\<open>sorted\<close> of the \<open>.wav\<close> files of \<open>os.listdir(PROCESSED_DIR)\<close>, each with its
      content; \<open>os.listdir\<close> raises \<open>FileNotFoundError\<close> on a missing directory\<close>
  "list_segments w =
     (case folder w of
        None \<Rightarrow> Inl FileNotFoundError
      | Some fs \<Rightarrow> Inr (sort_key fst (filter (\<lambda>f. endswith (fst f) ''.wav'') fs)))"

definition segment_features ::
  "('a, 'p) env \<Rightarrow> string option \<Rightarrow> string \<Rightarrow> string \<times> 'a audio \<Rightarrow> error + fvec" where
  \<comment> \<open>the loop body up to \<open>combined_features\<close>\<close>
  "segment_features env tokenizer lang segment =
     (case extract_all_features env segment of
        Inl e \<Rightarrow> Inl e
      | Inr acoustic_df \<Rightarrow>
          (case transcribe_audio env segment tokenizer of
             Inl e \<Rightarrow> Inl e
           | Inr transcription \<Rightarrow>
               (case extract_linguistic_features env transcription lang of
                  Inl e \<Rightarrow> Inl e
                | Inr linguistic_df \<Rightarrow> Inr (acoustic_df @ linguistic_df))))"

definition score_segment ::
  "('a, 'p) env \<Rightarrow> string \<times> 'a audio \<Rightarrow> fvec \<Rightarrow> error + row" where
  \<comment> \<open>the loop body from \<open>predict\<close> on\<close>
  "score_segment env segment combined_features =
     (case predict env combined_features of
        Inl e \<Rightarrow> Inl e
      | Inr (preds, probs) \<Rightarrow>
          let positive_prob = probs;
              threshold = 0.28;
              predicted_label = (if positive_prob \<ge> threshold then 1 else 0)
          in Inr \<lparr>file_name = fst segment, Prediction = predicted_label,
                  Probability = positive_prob\<rparr>)"

definition process_segment ::
  "('a, 'p) env \<Rightarrow> string option \<Rightarrow> string \<Rightarrow> string \<times> 'a audio \<Rightarrow> error + row" where
  "process_segment env tokenizer lang segment =
     (case segment_features env tokenizer lang segment of
        Inl e \<Rightarrow> Inl e
      | Inr combined_features \<Rightarrow> score_segment env segment combined_features)"

fun process_segments ::
  "('a, 'p) env \<Rightarrow> string option \<Rightarrow> string \<Rightarrow> (string \<times> 'a audio) list \<Rightarrow> error + row list" where
  "process_segments env tokenizer lang [] = Inr []"
| "process_segments env tokenizer lang (segment # rest) =
     (case process_segment env tokenizer lang segment of
        Inl e \<Rightarrow> Inl e
      | Inr r \<Rightarrow>
          (case process_segments env tokenizer lang rest of
             Inl e \<Rightarrow> Inl e
           | Inr rs \<Rightarrow> Inr (r # rs)))"

definition run_pipeline ::
  "('a, 'p) env \<Rightarrow> string \<Rightarrow> string \<Rightarrow> 'a world \<Rightarrow> (error + string) \<times> 'a world" where
  \<comment> \<open>the \<open>try\<close> block of \<open>predict_final_classification\<close>\<close>
  "run_pipeline env audio_file_path lang w =
     (case process_single_audio_file env audio_file_path w of
        (Inl e, w1) \<Rightarrow> (Inl e, w1)
      | (Inr _, w1) \<Rightarrow>
          (case list_segments w1 of
             Inl e \<Rightarrow> (Inl e, w1)
           | Inr segment_files \<Rightarrow>
               if segment_files = [] then (Inl FileNotFoundError, w1)
               else (case load_language_model env lang of
                       Inl e \<Rightarrow> (Inl e, w1)
                     | Inr tokenizer \<Rightarrow>
                         (case process_segments env tokenizer lang segment_files of
                            Inl e \<Rightarrow> (Inl e, w1)
                          | Inr results \<Rightarrow>
                              let w2 = w1\<lparr>predictions_csv := Some results\<rparr>;
                                  classification_result = weighted_majority_voting results;
                                  classification_label =
                                    (if classification_result = 0 then ''HC'' else ''AD'')
                              in (Inr classification_label, w2)))))"

definition recording_wav :: string where
  "recording_wav = ''uploads/recording.wav''"

definition test_connection_wav :: string where
  "test_connection_wav = ''uploads/test_connection.wav''"

definition delete_directory ::
  "('a, 'z) os_env_scheme \<Rightarrow> 'a world \<Rightarrow> (error + unit) \<times> 'a world" where
  \<comment> \<open>\<open>delete_directory(PROCESSED_DIR)\<close>: a failing \<open>shutil.rmtree\<close> is logged, not raised\<close>
  "delete_directory env w =
     (case folder w of
        None \<Rightarrow> (Inr (), w)
      | Some _ \<Rightarrow>
          (case rmtree_fault env w of
             None \<Rightarrow> (Inr (), w\<lparr>folder := None\<rparr>)
           | Some e \<Rightarrow> if catchable e then (Inr (), w) else (Inl e, w)))"

definition safe_delete_file ::
  "('a, 'z) os_env_scheme \<Rightarrow> string \<Rightarrow> 'a world \<Rightarrow> (error + unit) \<times> 'a world" where
  "safe_delete_file env file_path w =
     (if file_path \<in> files w
      then (case remove_fault env w file_path of
              None \<Rightarrow> (Inr (), w\<lparr>files := files w - {file_path}\<rparr>)
            | Some e \<Rightarrow> if catchable e then (Inr (), w) else (Inl e, w))
      else (Inr (), w))"

definition cleanup :: "('a, 'z) os_env_scheme \<Rightarrow> 'a world \<Rightarrow> (error + unit) \<times> 'a world" where
  \<comment> \<open>the \<open>finally\<close> block of \<open>predict_final_classification\<close>\<close>
  "cleanup env w =
     (case delete_directory env w of
        (Inl e, w1) \<Rightarrow> (Inl e, w1)
      | (Inr _, w1) \<Rightarrow>
          (case safe_delete_file env recording_wav w1 of
             (Inl e, w2) \<Rightarrow> (Inl e, w2)
           | (Inr _, w2) \<Rightarrow> safe_delete_file env test_connection_wav w2))"

definition predict_final_classification ::
  "('a, 'p) env \<Rightarrow> string \<Rightarrow> string \<Rightarrow> 'a world \<Rightarrow> (error + string) \<times> 'a world" where
  \<comment> \<open>\<open>try\<close> / \<open>except Exception\<close> / \<open>finally\<close>: an exception of the \<open>finally\<close> block
      replaces the pending result\<close>
  "predict_final_classification env audio_file_path lang w =
     (case run_pipeline env audio_file_path lang w of
        (r, w1) \<Rightarrow>
          let r' = (case r of
                      Inr classification_label \<Rightarrow> Inr classification_label
                    | Inl e \<Rightarrow> if catchable e then Inr ''Error: Could not classify audio.''
                               else Inl e)
          in (case cleanup env w1 of
                (Inl e, w2) \<Rightarrow> (Inl e, w2)
              | (Inr _, w2) \<Rightarrow> (r', w2)))"

section \<open>The single-file scorer (backend/api/prediction.py)\<close>

definition median_skipna :: "real option list \<Rightarrow> real option" where
  \<comment> \<open>the median of a column, NaN skipped; NaN when nothing is left\<close>
  "median_skipna col =
     (let xs = sort (List.map_filter id col); n = length xs
      in if n = 0 then None
         else if odd n then Some (xs ! (n div 2))
         else Some ((xs ! (n div 2 - 1) + xs ! (n div 2)) / 2))"

definition fillna_median :: "fvec \<Rightarrow> fvec" where
  \<comment> \<open>\<open>df.fillna(df.median(), inplace=True)\<close> on a one-row frame: the column is the
      single value\<close>
  "fillna_median df =
     map (\<lambda>(n, v). (n, case v of None \<Rightarrow> median_skipna [v] | Some x \<Rightarrow> Some x)) df"

definition prepare_features :: "('a, 'p) env \<Rightarrow> string \<Rightarrow> string \<Rightarrow> error + fvec" where
  \<comment> \<open>\<open>extract_linguistic_features\<close> is called with the audio path as its text\<close>
  "prepare_features env audio_path language_code =
     (case extract_acoustic_features env audio_path of
        Inl e \<Rightarrow> Inl e
      | Inr acoustic_df \<Rightarrow>
          (case extract_linguistic_features env (Some audio_path) language_code of
             Inl e \<Rightarrow> Inl e
           | Inr linguistic_df \<Rightarrow> Inr (fillna_median (acoustic_df @ linguistic_df))))"

definition np_round :: "real \<Rightarrow> int" where
  \<comment> \<open>\<open>np.round\<close>: halves go to the even neighbour\<close>
  "np_round x =
     (let f = \<lfloor>x\<rfloor>; d = x - of_int f
      in if d < 1 / 2 then f else if d > 1 / 2 then f + 1 else if even f then f else f + 1)"

definition MODEL_PATH :: string where
  "MODEL_PATH = ''models/random_forest_model.joblib''"

definition SCALER_PATH :: string where
  "SCALER_PATH = ''models/scaler.joblib''"

definition api_predict_final_classification ::
  "('a, 'p) env \<Rightarrow> string \<Rightarrow> string \<Rightarrow> 'a world \<Rightarrow> error + string" where
  \<comment> \<open>\<open>predict_final_classification\<close> of backend/api/prediction.py\<close>
  "api_predict_final_classification env audio_path language_code w =
     (case (if MODEL_PATH \<notin> files w then Inl FileNotFoundError
            else if SCALER_PATH \<notin> files w then Inl FileNotFoundError
            else (case prepare_features env audio_path language_code of
                    Inl e \<Rightarrow> Inl e
                  | Inr combined_features \<Rightarrow>
                      (case (case scaler_transform env combined_features of
                               Inr scaled \<Rightarrow> Inr scaled
                             | Inl e \<Rightarrow> if e = NotFittedError
                                        then scaler_fit_transform env combined_features
                                        else Inl e) of
                         Inl e \<Rightarrow> Inl e
                       | Inr scaled_features \<Rightarrow>
                           (case model_predict_proba env scaled_features of
                              Inl e \<Rightarrow> Inl e
                            | Inr probabilities \<Rightarrow>
                                let prediction = np_round probabilities
                                in Inr (if prediction = 1 then ''Alzheimer's Detected''
                                        else ''Healthy Control''))))) of
        Inr label \<Rightarrow> Inr label
      | Inl e \<Rightarrow> if catchable e then Inr ''Error: Prediction failed.'' else Inl e)"

section \<open>Test doubles\<close>

text \<open>
  Concrete collaborators for evaluating the pipeline: every library call succeeds, the
  upload \<open>uploads/recording.wav\<close> decodes to a clip of 3 ms, every other file is
  undecodable and FFmpeg fails on it. The scaler holds the column means and subtracts
  them; fitting on a one-row frame takes the row as the means. The classifier rejects NaN.
\<close>

definition stub_env :: "(nat, real option list) env" where
  "stub_env =
     \<lparr>from_file = (\<lambda>p. if p = ''uploads/recording.wav'' then Inr [1, 2, 3]
                        else Inl CouldntDecodeError),
      ffmpeg = (\<lambda>src dst. Some CalledProcessError),
      rmtree_fault = (\<lambda>w. None),
      remove_fault = (\<lambda>w p. None),
      from_pretrained = (\<lambda>lang. None),
      recognise = (\<lambda>lang seg. Inr ''Hello World ''),
      extract_all_features = (\<lambda>seg. Inr [(''zcr'', Some 0.1)]),
      extract_acoustic_features = (\<lambda>p. Inr [(''zcr'', Some 0.1)]),
      lftk_extract = (\<lambda>text lang. Inr [(''t_word'', Some 2)]),
      all_features = [''t_word''],
      scaler_fitted = Some [Some 0, Some 0],
      scaler_fit = (\<lambda>X. map snd X),
      scaler_apply =
        (\<lambda>p X. if length p \<noteq> length X then Inl ValueError
                else Inr (map2 (\<lambda>v m. case v of
                                         None \<Rightarrow> None
                                       | Some a \<Rightarrow> (case m of None \<Rightarrow> None
                                                   | Some b \<Rightarrow> Some (a - b)))
                               (map snd X) p)),
      feature_names_in = [''t_word'', ''zcr''],
      model_predict = (\<lambda>x. Inr 0),
      model_predict_proba = (\<lambda>x. if None \<in> set x then Inl ValueError else Inr 0.28)\<rparr>"

definition stub_world :: "nat world" where
  "stub_world =
     \<lparr>files = {''uploads/recording.wav'', ''uploads/broken.wav'', MODEL_PATH, SCALER_PATH},
      folder = None, calls = [], predictions_csv = None\<rparr>"

definition empty_recording_env :: "(nat, real option list) env" where
  \<comment> \<open>the upload decodes to a clip of 0 ms\<close>
  "empty_recording_env = stub_env\<lparr>from_file := \<lambda>p. Inr []\<rparr>"

definition unfitted_env :: "(nat, real option list) env" where
  \<comment> \<open>the scaler was never fit; the classifier answers 0.9 on an all-zero row\<close>
  "unfitted_env =
     stub_env\<lparr>scaler_fitted := None,
              model_predict_proba := \<lambda>x. if x = [Some 0, Some 0] then Inr 0.9 else Inr 0.1\<rparr>"

definition failing_asr_env :: "(nat, real option list) env" where
  \<comment> \<open>the upload decodes to 45 s; recognition fails on the second segment\<close>
  "failing_asr_env =
     stub_env\<lparr>from_file := \<lambda>p. Inr (replicate 45000 0),
              recognise := \<lambda>lang seg. if fst seg = ''recording_segment2.wav''
                                        then Inl ValueError else Inr ''hello''\<rparr>"

definition silent_env :: "(nat, real option list) env" where
  \<comment> \<open>recognition succeeds with a blank text\<close>
  "silent_env = stub_env\<lparr>recognise := \<lambda>lang seg. Inr '' ''\<rparr>"




section \<open>Properties of the aggregator\<close>


text \<open>
  C10. On an empty sequence of scored segments the aggregator does not fail: both sums are
  0, the strict comparison is false, and the label is 0 (HC).
\<close>

theorem weighted_majority_voting_empty:
  "weighted_majority_voting [] = 0 \<and> direction_sums [] = (0, 0)"
  by (simp add: weighted_majority_voting_def)



section \<open>Properties of the segmenter\<close>

subsection \<open>Clips\<close>

lemma length_audio_mul: "length (audio_mul a n) = n * length a"
  by (induction n) (simp_all add: audio_mul_def)


lemma repeats_exceed: "0 < d \<Longrightarrow> t < (t div d + 1) * (d::nat)"
  by (metis Suc_eq_plus1 dividend_less_div_times mult.commute mult_Suc)

lemma looped_length:
  "0 < length a \<Longrightarrow> length (audio_prefix (audio_mul a (t div length a + 1)) t) = t"
  using repeats_exceed[of "length a" t] by (simp add: audio_prefix_def length_audio_mul)


lemma full_slice_length:
  "i < d div s \<Longrightarrow> length a = d \<Longrightarrow> length (audio_slice a (i * s) (i * s + s)) = s"
proof -
  assume i: "i < d div s" and a: "length a = d"
  have "Suc i \<le> d div s" using i by simp
  then have "Suc i * s \<le> (d div s) * s" by (rule mult_le_mono1)
  also have "\<dots> \<le> d" by simp
  finally show ?thesis using a by (simp add: audio_slice_def)
qed



subsection \<open>Names\<close>

lemma of_char_digit: "d < 10 \<Longrightarrow> of_char (digit_char d) = 48 + d"
  by (simp add: digit_char_def)

lemma nat_of_str_nat: "foldl (\<lambda>acc c. 10 * acc + (of_char c - 48)) 0 (str_nat n) = n"
proof (induction n rule: str_nat.induct)
  case (1 n)
  show ?case
  proof (cases "n < 10")
    case True
    then show ?thesis by (simp add: str_nat.simps[of n] of_char_digit)
  next
    case False
    with 1 have "foldl (\<lambda>acc c. 10 * acc + (of_char c - 48)) 0 (str_nat (n div 10)) = n div 10"
      by simp
    then show ?thesis using False
      by (simp add: str_nat.simps[of n] of_char_digit)
  qed
qed

lemma str_nat_inj: "str_nat a = str_nat b \<Longrightarrow> a = b"
  by (metis nat_of_str_nat)

lemma segment_filename_inj: "segment_filename fn a = segment_filename fn b \<Longrightarrow> a = b"
  by (simp add: segment_filename_def str_nat_inj)

lemma distinct_segment_filenames: "distinct (map (segment_filename fn) [a..<b])"
  by (simp add: distinct_map inj_on_def) (metis segment_filename_inj)

lemma endswith_append: "endswith (s @ t) t"
  by (simp add: endswith_def)

lemma endswith_segment_filename: "endswith (segment_filename fn k) ''.wav''"
  unfolding segment_filename_def append_assoc[symmetric] by (rule endswith_append)

subsection \<open>Segments\<close>

lemma process_short_audio_ok:
  "0 < length audio \<Longrightarrow>
   process_short_audio audio fn (length audio) t =
     Inr [(splitext_root fn @ ''.wav'',
           audio_prefix (audio_mul audio (t div length audio + 1)) t)]"
  by (simp add: process_short_audio_def)

lemma shifted_names:
  "map (\<lambda>i. segment_filename fn (Suc i)) [0..<n] = map (segment_filename fn) [Suc 0..<Suc n]"
  by (simp add: map_Suc_upt[symmetric] del: upt_Suc)

lemma process_long_audio_shape:
  assumes s: "0 < s"
  shows "\<exists>xs. process_long_audio audio fn (length audio) s = Inr xs
     \<and> length xs = length audio div s + (if length audio mod s = 0 then 0 else 1)
     \<and> (\<forall>x \<in> set xs. length (snd x) = s)
     \<and> map fst xs = map (segment_filename fn) [1..<Suc (length xs)]"
proof (cases "length audio mod s = 0")
  case True
  then show ?thesis using s shifted_names
    by (auto simp: process_long_audio_def Let_def full_slice_length o_def)
next
  case False
  let ?r = "length audio mod s"
  have r: "0 < ?r" using False by simp
  have len_suffix: "length (audio_suffix audio ?r) = ?r"
    by (simp add: audio_suffix_def mod_le_divisor)
  have last_len: "length (audio_prefix (audio_mul (audio_suffix audio ?r) (s div ?r + 1)) s) = s"
    using looped_length[of "audio_suffix audio ?r" s] r len_suffix by simp
  show ?thesis using s r last_len shifted_names
    by (auto simp: process_long_audio_def Let_def full_slice_length o_def)
qed

lemma pad_or_split_shape:
  assumes "0 < length audio"
  shows "\<exists>xs. pad_or_split audio file_path = Inr xs
     \<and> (\<forall>x \<in> set xs. length (snd x) = twenty_sec_ms)
     \<and> length xs = (if length audio < twenty_sec_ms then 1
                     else length audio div twenty_sec_ms
                          + (if length audio mod twenty_sec_ms = 0 then 0 else 1))
     \<and> distinct (map fst xs)
     \<and> (\<forall>x \<in> set xs. endswith (fst x) ''.wav'')"
proof (cases "length audio < twenty_sec_ms")
  case True
  then show ?thesis using assms looped_length[OF assms, of twenty_sec_ms]
    by (simp add: pad_or_split_def process_short_audio_ok endswith_append)
next
  case False
  have pos: "0 < twenty_sec_ms" by (simp add: twenty_sec_ms_def)
  from process_long_audio_shape[OF pos, of audio "basename file_path"]
  obtain xs where xs: "process_long_audio audio (basename file_path) (length audio) twenty_sec_ms = Inr xs"
    and len: "length xs = length audio div twenty_sec_ms + (if length audio mod twenty_sec_ms = 0 then 0 else 1)"
    and each: "\<forall>x \<in> set xs. length (snd x) = twenty_sec_ms"
    and names: "map fst xs = map (segment_filename (basename file_path)) [1..<Suc (length xs)]"
    by blast
  have d: "distinct (map fst xs)" unfolding names by (rule distinct_segment_filenames)
  have "\<forall>n \<in> set (map fst xs). endswith n ''.wav''"
    unfolding names using endswith_segment_filename by auto
  then have w: "\<forall>x \<in> set xs. endswith (fst x) ''.wav''" by simp
  show ?thesis using False xs len each d w by (simp add: pad_or_split_def)
qed

subsection \<open>The output folder\<close>

lemma update_fresh: "k \<notin> fst ` set al \<Longrightarrow> AList.update k v al = al @ [(k, v)]"
  by (induction al) auto

lemma foldl_update_distinct:
  "distinct (map fst (ys @ xs)) \<Longrightarrow>
   foldl (\<lambda>acc (n, a). AList.update n a acc) ys xs = ys @ xs"
proof (induction xs arbitrary: ys)
  case Nil
  then show ?case by simp
next
  case (Cons x xs)
  obtain n a where x: "x = (n, a)" by (cases x)
  have fresh: "n \<notin> fst ` set ys" using Cons.prems x by auto
  have "distinct (map fst ((ys @ [x]) @ xs))" using Cons.prems by simp
  from Cons.IH[OF this] show ?case using fresh x by (simp add: update_fresh)
qed

lemma clean_folder_ok:
  "folder w = None \<or> rmtree_fault env w = None \<Longrightarrow>
   clean_folder env w = (Inr (), w\<lparr>folder := Some []\<rparr>)"
  by (auto simp: clean_folder_def split: option.splits)

lemma load_audio_decoded:
  "from_file env file_path = Inr audio \<Longrightarrow>
   load_audio env file_path w = (Inr (Some audio), w\<lparr>calls := calls w @ [Decode file_path]\<rparr>)"
  by (simp add: load_audio_def)

lemma segmentation_of_decoded:
  assumes "file_path \<in> files w"
    and "folder w = None \<or> rmtree_fault env w = None"
    and "from_file env file_path = Inr audio"
    and "0 < length audio"
  shows "\<exists>xs. pad_or_split audio file_path = Inr xs
     \<and> process_single_audio_file env file_path w =
         (Inr (), w\<lparr>folder := Some xs, calls := calls w @ [Decode file_path]\<rparr>)"
proof -
  from pad_or_split_shape[OF assms(4), of file_path]
  obtain xs where xs: "pad_or_split audio file_path = Inr xs" and d: "distinct (map fst xs)"
    by blast
  have "foldl (\<lambda>acc (n, a). AList.update n a acc) [] xs = xs"
    using foldl_update_distinct[of "[]" xs] d by simp
  then show ?thesis using assms(1) xs
    by (simp add: process_single_audio_file_def clean_folder_ok[OF assms(2)]
        load_audio_decoded[OF assms(3)] export_all_def)
qed

lemma segmentation_count:
  assumes "file_path \<in> files w"
    and "folder w = None \<or> rmtree_fault env w = None"
    and "from_file env file_path = Inr audio"
    and "0 < length audio"
  shows "\<exists>xs. fst (process_single_audio_file env file_path w) = Inr ()
     \<and> folder (snd (process_single_audio_file env file_path w)) = Some xs
     \<and> (\<forall>x \<in> set xs. length (snd x) = 20000)
     \<and> length xs = (if length audio < 20000 then 1
                     else length audio div 20000 + (if length audio mod 20000 = 0 then 0 else 1))"
proof -
  from segmentation_of_decoded[OF assms]
  obtain xs where xs: "pad_or_split audio file_path = Inr xs"
    and run: "process_single_audio_file env file_path w =
         (Inr (), w\<lparr>folder := Some xs, calls := calls w @ [Decode file_path]\<rparr>)"
    by blast
  from pad_or_split_shape[OF assms(4), of file_path] xs
  have "(\<forall>x \<in> set xs. length (snd x) = twenty_sec_ms)
     \<and> length xs = (if length audio < twenty_sec_ms then 1
                     else length audio div twenty_sec_ms
                          + (if length audio mod twenty_sec_ms = 0 then 0 else 1))"
    by auto
  then show ?thesis using run by (simp add: twenty_sec_ms_def)
qed

lemma zero_length_raises:
  assumes "file_path \<in> files w"
    and "folder w = None \<or> rmtree_fault env w = None"
    and "from_file env file_path = Inr []"
  shows "process_single_audio_file env file_path w =
           (Inl ZeroDivisionError, w\<lparr>folder := Some [], calls := calls w @ [Decode file_path]\<rparr>)"
  using assms(1)
  by (simp add: process_single_audio_file_def clean_folder_ok[OF assms(2)]
      load_audio_decoded[OF assms(3)] pad_or_split_def process_short_audio_def twenty_sec_ms_def)

lemma cleanup_returns:
  assumes "\<And>w. rmtree_fault env w \<noteq> Some KeyboardInterrupt"
    and "\<And>w p. remove_fault env w p \<noteq> Some KeyboardInterrupt"
  shows "fst (cleanup env w) = Inr ()"
  using assms
  by (auto simp: cleanup_def delete_directory_def safe_delete_file_def catchable_def
      split: option.splits prod.splits sum.splits if_splits)

lemma failed_request_label:
  assumes "run_pipeline env p lang w = (Inl e, w1)" and "catchable e"
    and "fst (cleanup env w1) = Inr ()"
  shows "fst (predict_final_classification env p lang w) = Inr ''Error: Could not classify audio.''"
  using assms
  by (auto simp: predict_final_classification_def split: prod.splits sum.splits)

lemma stub_cleanup_returns:
  "rmtree_fault env = (\<lambda>w. None) \<Longrightarrow> remove_fault env = (\<lambda>w p. None) \<Longrightarrow>
   fst (cleanup env w) = Inr ()"
  by (rule cleanup_returns) simp_all

text \<open>
  C1. A recording of \<open>d\<close> seconds yields segments of exactly 20 s each: one when
  \<open>d < 20\<close>, \<open>floor(d/20)\<close> when \<open>d\<close> is a multiple of 20, one more otherwise
  (\<open>segmentation_count\<close>, for every clip of at least 1 ms). A recording that decodes to
  a clip of 0 ms is shorter than 20 s, yet for it \<open>target_ms // duration_ms\<close> divides by
  zero: the segmenter raises \<open>ZeroDivisionError\<close>, the output folder stays empty and
  the request ends with the error outcome, where one segment of 20 s is promised.
\<close>

theorem empty_recording_division_by_zero:
  "fst (process_single_audio_file empty_recording_env ''uploads/recording.wav'' stub_world)
     = Inl ZeroDivisionError
   \<and> folder (snd (process_single_audio_file empty_recording_env ''uploads/recording.wav''
                    stub_world)) = Some []
   \<and> fst (predict_final_classification empty_recording_env ''uploads/recording.wav'' ''en''
            stub_world) = Inr ''Error: Could not classify audio.''"
proof -
  let ?w1 = "stub_world\<lparr>folder := Some [],
                        calls := calls stub_world @ [Decode ''uploads/recording.wav'']\<rparr>"
  have run: "process_single_audio_file empty_recording_env ''uploads/recording.wav'' stub_world =
      (Inl ZeroDivisionError, ?w1)"
    by (rule zero_length_raises) (simp_all add: stub_world_def empty_recording_env_def stub_env_def)
  have pipe: "run_pipeline empty_recording_env ''uploads/recording.wav'' ''en'' stub_world =
      (Inl ZeroDivisionError, ?w1)"
    by (simp add: run_pipeline_def run)
  have fin: "fst (cleanup empty_recording_env ?w1) = Inr ()"
    by (rule stub_cleanup_returns) (simp_all add: empty_recording_env_def stub_env_def)
  have "fst (predict_final_classification empty_recording_env ''uploads/recording.wav'' ''en''
            stub_world) = Inr ''Error: Could not classify audio.''"
    by (rule failed_request_label[OF pipe _ fin]) (simp add: catchable_def)
  then show ?thesis using run by simp
qed



section \<open>Properties of the per-segment scoring\<close>

lemma score_segment_row:
  assumes "score_segment env segment X = Inr r"
  shows "file_name r = fst segment
     \<and> (\<exists>preds. predict env X = Inr (preds, Probability r))
     \<and> (Prediction r = 1 \<longleftrightarrow> 0.28 \<le> Probability r)
     \<and> (Prediction r = 0 \<longleftrightarrow> Probability r < 0.28)"
  using assms by (auto simp: score_segment_def Let_def split: sum.splits prod.splits if_splits)

lemma process_segment_row:
  assumes "process_segment env tokenizer lang segment = Inr r"
  shows "file_name r = fst segment
     \<and> (\<exists>X preds. segment_features env tokenizer lang segment = Inr X
                  \<and> predict env X = Inr (preds, Probability r))
     \<and> (Prediction r = 1 \<longleftrightarrow> 0.28 \<le> Probability r)
     \<and> (Prediction r = 0 \<longleftrightarrow> Probability r < 0.28)"
proof -
  from assms obtain X where X: "segment_features env tokenizer lang segment = Inr X"
    and sc: "score_segment env segment X = Inr r"
    by (auto simp: process_segment_def split: sum.splits)
  from score_segment_row[OF sc] X show ?thesis by blast
qed

lemma process_segments_rows:
  "process_segments env tokenizer lang segments = Inr rs \<Longrightarrow>
   length rs = length segments
   \<and> (\<forall>i < length segments. process_segment env tokenizer lang (segments ! i) = Inr (rs ! i))"
proof (induction segments arbitrary: rs)
  case Nil
  then show ?case by simp
next
  case (Cons s segments)
  from Cons.prems obtain r rest where r: "process_segment env tokenizer lang s = Inr r"
    and rest: "process_segments env tokenizer lang segments = Inr rest" and rs: "rs = r # rest"
    by (auto split: sum.splits)
  from Cons.IH[OF rest] r rs show ?case by (auto simp: nth_Cons split: nat.splits)
qed

text \<open>
  C3. Every scored segment gets its binary label once, from the probability the scorer
  returned for it: 1 exactly when that probability is at least 0.28 (so 0.28 itself is
  positive), 0 otherwise. The threshold is the literal 0.28.
\<close>

theorem threshold_applied_per_segment:
  assumes "process_segments env tokenizer lang segments = Inr rs"
  shows "length rs = length segments
     \<and> (\<forall>i < length segments.
           file_name (rs ! i) = fst (segments ! i)
         \<and> (\<exists>X preds. segment_features env tokenizer lang (segments ! i) = Inr X
                      \<and> predict env X = Inr (preds, Probability (rs ! i)))
         \<and> (Prediction (rs ! i) = 1 \<longleftrightarrow> 0.28 \<le> Probability (rs ! i))
         \<and> (Prediction (rs ! i) = 0 \<longleftrightarrow> Probability (rs ! i) < 0.28))"
proof -
  from process_segments_rows[OF assms]
  have len: "length rs = length segments"
    and each: "\<forall>i < length segments.
                 process_segment env tokenizer lang (segments ! i) = Inr (rs ! i)"
    by blast+
  show ?thesis using len each process_segment_row by blast
qed

lemma stub_segment_row:
  "process_segment stub_env (Some ''en'') ''en'' (''recording.wav'', clip) =
     Inr \<lparr>file_name = ''recording.wav'', Prediction = 1, Probability = 0.28\<rparr>"
proof -
  have lowered: "py_strip (py_lower ''Hello World '') = ''hello world''" by code_simp
  have stripped: "py_strip ''hello world'' = ''hello world''" by code_simp
  show ?thesis
    by (simp add: process_segment_def segment_features_def score_segment_def predict_def
        transcribe_audio_def extract_linguistic_features_def scaler_transform_def
        select_columns_def stub_env_def lowered stripped)
qed

theorem threshold_applied_per_segment_witness:
  "process_segments stub_env (Some ''en'') ''en'' [(''recording.wav'', [1, 2, 3])] =
     Inr [\<lparr>file_name = ''recording.wav'', Prediction = 1, Probability = 0.28\<rparr>]
   \<and> Probability \<lparr>file_name = ''recording.wav'', Prediction = 1, Probability = 0.28\<rparr> = 0.28
   \<and> Prediction \<lparr>file_name = ''recording.wav'', Prediction = 1, Probability = 0.28\<rparr> = 1"
proof -
  have run: "process_segments stub_env (Some ''en'') ''en'' [(''recording.wav'', [1, 2, 3])] =
     Inr [\<lparr>file_name = ''recording.wav'', Prediction = 1, Probability = 0.28\<rparr>]"
    by (simp add: stub_segment_row)
  from threshold_applied_per_segment[OF run] show ?thesis using run by simp
qed

section \<open>Properties of the decoding fallback\<close>

lemma load_audio_fallback:
  assumes "from_file env file_path = Inl CouldntDecodeError"
  shows "calls (snd (load_audio env file_path w)) =
           calls w @ Decode file_path
                   # Reencode file_path (splitext_root file_path @ ''_reencoded.wav'')
                   # (if ffmpeg env file_path (splitext_root file_path @ ''_reencoded.wav'') = None
                      then [Decode (splitext_root file_path @ ''_reencoded.wav'')] else [])"
    and "folder (snd (load_audio env file_path w)) = folder w"
    and "ffmpeg env file_path (splitext_root file_path @ ''_reencoded.wav'') = Some CalledProcessError
         \<or> (ffmpeg env file_path (splitext_root file_path @ ''_reencoded.wav'') = None
            \<and> from_file env (splitext_root file_path @ ''_reencoded.wav'') = Inl CouldntDecodeError)
         \<Longrightarrow> fst (load_audio env file_path w) = Inr None"
  using assms
  by (auto simp: load_audio_def reencode_audio_def Let_def split: option.splits sum.splits)

lemma list_segments_empty: "folder w = Some [] \<Longrightarrow> list_segments w = Inr []"
  by (simp add: list_segments_def)

text \<open>
  C5 (as the code has it). When decoding raises \<open>CouldntDecodeError\<close>, the segmenter
  runs the FFmpeg re-encoding once and, when FFmpeg succeeds, decodes the re-encoded file
  once. When FFmpeg fails with \<open>CalledProcessError\<close> or the second decoding raises
  \<open>CouldntDecodeError\<close>, \<open>process_single_audio_file\<close> returns normally and leaves the
  output folder empty; it is the pipeline that then raises \<open>FileNotFoundError\<close> for the
  missing segments, and the request returns the generic error text, provided that no
  \<open>KeyboardInterrupt\<close> comes out of the \<open>finally\<close> block.
\<close>

theorem decode_fallback_returns_without_segments:
  assumes valid: "file_path \<in> files w"
    and clean: "folder w = None \<or> rmtree_fault env w = None"
    and undecodable: "from_file env file_path = Inl CouldntDecodeError"
    and reencoded: "reencoded_path = splitext_root file_path @ ''_reencoded.wav''"
  shows "calls (snd (process_single_audio_file env file_path w)) =
           calls w @ Decode file_path # Reencode file_path reencoded_path
                   # (if ffmpeg env file_path reencoded_path = None
                      then [Decode reencoded_path] else [])
     \<and> (ffmpeg env file_path reencoded_path = Some CalledProcessError
          \<or> (ffmpeg env file_path reencoded_path = None
             \<and> from_file env reencoded_path = Inl CouldntDecodeError)
        \<longrightarrow> fst (process_single_audio_file env file_path w) = Inr ()
          \<and> folder (snd (process_single_audio_file env file_path w)) = Some []
          \<and> fst (run_pipeline env file_path lang w) = Inl FileNotFoundError
          \<and> ((\<forall>w'. rmtree_fault env w' \<noteq> Some KeyboardInterrupt)
               \<and> (\<forall>w' f. remove_fault env w' f \<noteq> Some KeyboardInterrupt)
             \<longrightarrow> fst (predict_final_classification env file_path lang w) =
                   Inr ''Error: Could not classify audio.''))"
proof -
  let ?w1 = "w\<lparr>folder := Some []\<rparr>"
  obtain r w2 where la: "load_audio env file_path ?w1 = (r, w2)" by (cases "load_audio env file_path ?w1")
  have calls2: "calls w2 = calls w @ Decode file_path # Reencode file_path reencoded_path
                   # (if ffmpeg env file_path reencoded_path = None
                      then [Decode reencoded_path] else [])"
    using load_audio_fallback(1)[OF undecodable, of ?w1] la reencoded by simp
  have folder2: "folder w2 = Some []"
    using load_audio_fallback(2)[OF undecodable, of ?w1] la by simp
  have step: "process_single_audio_file env file_path w =
      (case r of Inl e \<Rightarrow> (Inl e, w2)
       | Inr None \<Rightarrow> (Inr (), w2)
       | Inr (Some audio) \<Rightarrow>
           (case pad_or_split audio file_path of
              Inl e \<Rightarrow> (Inl e, w2)
            | Inr exports \<Rightarrow> (Inr (), export_all exports w2)))"
    using valid by (simp add: process_single_audio_file_def clean_folder_ok[OF clean] la)
  have calls_all: "calls (snd (process_single_audio_file env file_path w)) = calls w2"
    unfolding step by (simp add: export_all_def split: sum.splits option.splits)
  have failed: "fst (process_single_audio_file env file_path w) = Inr ()
          \<and> folder (snd (process_single_audio_file env file_path w)) = Some []
          \<and> fst (run_pipeline env file_path lang w) = Inl FileNotFoundError
          \<and> ((\<forall>w'. rmtree_fault env w' \<noteq> Some KeyboardInterrupt)
               \<and> (\<forall>w' f. remove_fault env w' f \<noteq> Some KeyboardInterrupt)
             \<longrightarrow> fst (predict_final_classification env file_path lang w) =
                   Inr ''Error: Could not classify audio.'')"
    if f: "ffmpeg env file_path reencoded_path = Some CalledProcessError
          \<or> (ffmpeg env file_path reencoded_path = None
             \<and> from_file env reencoded_path = Inl CouldntDecodeError)"
  proof -
    have "r = Inr None"
      using load_audio_fallback(3)[OF undecodable, of ?w1] f la reencoded by simp
    then have run: "process_single_audio_file env file_path w = (Inr (), w2)"
      using step by simp
    have pipe: "run_pipeline env file_path lang w = (Inl FileNotFoundError, w2)"
      using folder2 by (simp add: run_pipeline_def run list_segments_empty)
    have label: "fst (predict_final_classification env file_path lang w) =
        Inr ''Error: Could not classify audio.''"
      if quiet: "(\<forall>w'. rmtree_fault env w' \<noteq> Some KeyboardInterrupt)
               \<and> (\<forall>w' f. remove_fault env w' f \<noteq> Some KeyboardInterrupt)"
    proof -
      have fin: "fst (cleanup env w2) = Inr ()"
        using quiet by (intro cleanup_returns) simp_all
      show ?thesis
        by (rule failed_request_label[OF pipe _ fin]) (simp add: catchable_def)
    qed
    show ?thesis using run folder2 pipe label by simp
  qed
  show ?thesis using calls_all calls2 failed by simp
qed

theorem decode_fallback_returns_without_segments_witness:
  "''uploads/broken.wav'' \<in> files stub_world
   \<and> (folder stub_world = None \<or> rmtree_fault stub_env stub_world = None)
   \<and> from_file stub_env ''uploads/broken.wav'' = Inl CouldntDecodeError
   \<and> ffmpeg stub_env ''uploads/broken.wav'' ''uploads/broken_reencoded.wav''
       = Some CalledProcessError
   \<and> calls (snd (process_single_audio_file stub_env ''uploads/broken.wav'' stub_world)) =
       [Decode ''uploads/broken.wav'',
        Reencode ''uploads/broken.wav'' ''uploads/broken_reencoded.wav'']
   \<and> fst (process_single_audio_file stub_env ''uploads/broken.wav'' stub_world) = Inr ()
   \<and> folder (snd (process_single_audio_file stub_env ''uploads/broken.wav'' stub_world)) = Some []
   \<and> fst (run_pipeline stub_env ''uploads/broken.wav'' ''en'' stub_world) = Inl FileNotFoundError
   \<and> (\<forall>w'. rmtree_fault stub_env w' \<noteq> Some KeyboardInterrupt)
   \<and> (\<forall>w' f. remove_fault stub_env w' f \<noteq> Some KeyboardInterrupt)
   \<and> fst (predict_final_classification stub_env ''uploads/broken.wav'' ''en'' stub_world) =
       Inr ''Error: Could not classify audio.''"
proof -
  have valid: "''uploads/broken.wav'' \<in> files stub_world" by (simp add: stub_world_def)
  have clean: "folder stub_world = None \<or> rmtree_fault stub_env stub_world = None"
    by (simp add: stub_world_def)
  have undecodable: "from_file stub_env ''uploads/broken.wav'' = Inl CouldntDecodeError"
    by (simp add: stub_env_def)
  have reencoded: "''uploads/broken_reencoded.wav'' = splitext_root ''uploads/broken.wav'' @ ''_reencoded.wav''"
    by (simp add: splitext_root_def)
  have failing: "ffmpeg stub_env ''uploads/broken.wav'' ''uploads/broken_reencoded.wav''
       = Some CalledProcessError"
    by (simp add: stub_env_def)
  have start: "calls stub_world = []" by (simp add: stub_world_def)
  have quiet: "(\<forall>w'. rmtree_fault stub_env w' \<noteq> Some KeyboardInterrupt)
             \<and> (\<forall>w' f. remove_fault stub_env w' f \<noteq> Some KeyboardInterrupt)"
    by (simp add: stub_env_def)
  from decode_fallback_returns_without_segments[OF valid clean undecodable reencoded, of "''en''"]
  show ?thesis using valid clean undecodable failing start quiet by simp
qed

text \<open>
  C5 as stated fails: on an undecodable upload whose re-encoding fails too, the segmenter
  raises nothing. It returns normally with no segment in the output folder.
\<close>

theorem undecodable_upload_returns_normally:
  "fst (process_single_audio_file stub_env ''uploads/broken.wav'' stub_world) = Inr ()
   \<and> folder (snd (process_single_audio_file stub_env ''uploads/broken.wav'' stub_world)) = Some []"
  by (simp add: process_single_audio_file_def stub_env_def stub_world_def clean_folder_def
      load_audio_def reencode_audio_def splitext_root_def)

section \<open>Properties of the scorer\<close>

lemma unfitted_transform: "scaler_fitted env = None \<Longrightarrow> scaler_transform env X = Inl NotFittedError"
  by (simp add: scaler_transform_def)

text \<open>
  C4 (as the code has it). With a scaler that was never fit, \<open>predict\<close> of
  server/server/prediction.py fails with \<open>NotFittedError\<close> and scores nothing, and the
  pipeline's loop body fails with it. \<open>predict_final_classification\<close> of
  backend/api/prediction.py catches that error, fits the scaler on the features of the
  recording being classified and goes on to a label.
\<close>

theorem unfitted_scaler_behaviour:
  assumes unfit: "scaler_fitted env = None"
  shows "predict env X = Inl NotFittedError
     \<and> score_segment env segment X = Inl NotFittedError
     \<and> (MODEL_PATH \<in> files w \<and> SCALER_PATH \<in> files w
        \<and> prepare_features env audio_path language_code = Inr F
        \<and> scaler_fit_transform env F = Inr S
        \<and> model_predict_proba env S = Inr q
        \<longrightarrow> api_predict_final_classification env audio_path language_code w =
              Inr (if np_round q = 1 then ''Alzheimer's Detected'' else ''Healthy Control''))"
  using unfitted_transform[OF unfit]
  by (simp add: predict_def score_segment_def api_predict_final_classification_def)

lemma stub_prepare_features:
  "prepare_features unfitted_env ''uploads/recording.wav'' ''en'' =
     Inr [(''zcr'', Some 0.1), (''t_word'', Some 2)]"
proof -
  have nonempty: "py_strip ''uploads/recording.wav'' \<noteq> []" by code_simp
  show ?thesis
    by (simp add: prepare_features_def extract_linguistic_features_def fillna_median_def
        unfitted_env_def stub_env_def nonempty)
qed

theorem unfitted_scaler_behaviour_witness:
  "scaler_fitted unfitted_env = None
   \<and> MODEL_PATH \<in> files stub_world \<and> SCALER_PATH \<in> files stub_world
   \<and> prepare_features unfitted_env ''uploads/recording.wav'' ''en'' =
       Inr [(''zcr'', Some 0.1), (''t_word'', Some 2)]
   \<and> scaler_fit_transform unfitted_env [(''zcr'', Some 0.1), (''t_word'', Some 2)] =
       Inr [Some 0, Some 0]
   \<and> model_predict_proba unfitted_env [Some 0, Some 0] = Inr 0.9
   \<and> predict unfitted_env [(''zcr'', Some 0.1), (''t_word'', Some 2)] = Inl NotFittedError
   \<and> api_predict_final_classification unfitted_env ''uploads/recording.wav'' ''en'' stub_world =
       Inr ''Alzheimer's Detected''"
proof -
  have unfit: "scaler_fitted unfitted_env = None" by (simp add: unfitted_env_def)
  have paths: "MODEL_PATH \<in> files stub_world \<and> SCALER_PATH \<in> files stub_world"
    by (simp add: stub_world_def)
  have fitted: "scaler_fit_transform unfitted_env [(''zcr'', Some 0.1), (''t_word'', Some 2)] =
       Inr [Some 0, Some 0]"
    by (simp add: scaler_fit_transform_def unfitted_env_def stub_env_def)
  have proba: "model_predict_proba unfitted_env [Some 0, Some 0] = Inr 0.9"
    by (simp add: unfitted_env_def stub_env_def)
  have rounded: "np_round 0.9 = 1" by (simp add: np_round_def)
  from unfitted_scaler_behaviour[OF unfit, of "[(''zcr'', Some 0.1), (''t_word'', Some 2)]"
      "(''recording.wav'', [])" stub_world "''uploads/recording.wav''" "''en''"
      "[(''zcr'', Some 0.1), (''t_word'', Some 2)]" "[Some 0, Some 0]" "0.9"]
  show ?thesis using unfit paths stub_prepare_features fitted proba rounded by simp
qed

text \<open>
  C4 as stated fails: the single-file scorer, given a scaler that was never fit, fits it on
  the inference data and returns a label instead of failing. With the test scaler the
  fitted means are the inference row itself, the scaled row is all zeros, and the label
  comes from that row.
\<close>

theorem unfitted_scaler_is_fit_on_inference_data:
  "scaler_fitted unfitted_env = None
   \<and> api_predict_final_classification unfitted_env ''uploads/recording.wav'' ''en'' stub_world =
       Inr ''Alzheimer's Detected''"
proof -
  have nonempty: "py_strip ''uploads/recording.wav'' \<noteq> []" by code_simp
  have rounded: "np_round 0.9 = 1" by (simp add: np_round_def)
  show ?thesis
    by (simp add: api_predict_final_classification_def prepare_features_def
        extract_linguistic_features_def fillna_median_def scaler_transform_def
        scaler_fit_transform_def unfitted_env_def stub_env_def stub_world_def nonempty rounded
        MODEL_PATH_def SCALER_PATH_def)
qed

section \<open>Properties of the per-segment failure handling\<close>

lemma failed_transcription_raises:
  "transcribe_audio env segment tokenizer = Inr None \<Longrightarrow>
   \<exists>e. process_segment env tokenizer lang segment = Inl e"
  by (simp add: process_segment_def segment_features_def extract_linguistic_features_def
      split: sum.splits)

lemma failed_transcription_aborts:
  "segment \<in> set segments \<Longrightarrow> transcribe_audio env segment tokenizer = Inr None \<Longrightarrow>
   \<exists>e. process_segments env tokenizer lang segments = Inl e"
proof (induction segments)
  case Nil
  then show ?case by simp
next
  case (Cons s segments)
  show ?case
  proof (cases "process_segment env tokenizer lang s")
    case (Inl e)
    then show ?thesis by simp
  next
    case (Inr r)
    with failed_transcription_raises[of env s tokenizer lang] Cons.prems
    have "segment \<in> set segments" by auto
    from Cons.IH[OF this Cons.prems(2)] Inr show ?thesis by auto
  qed
qed

lemma final_world:
  "snd (predict_final_classification env p lang w) =
   snd (cleanup env (snd (run_pipeline env p lang w)))"
  by (simp add: predict_final_classification_def Let_def split: prod.splits sum.splits)

lemma segment_names:
  "segment_filename (basename ''uploads/recording.wav'') 1 = ''recording_segment1.wav''"
  "segment_filename (basename ''uploads/recording.wav'') 2 = ''recording_segment2.wav''"
  "segment_filename (basename ''uploads/recording.wav'') 3 = ''recording_segment3.wav''"
  "segment_filename (basename ''uploads/recording.wav'') (Suc 0) = ''recording_segment1.wav''"
  "segment_filename (basename ''uploads/recording.wav'') (Suc (Suc 0)) = ''recording_segment2.wav''"
  by code_simp+

lemma long_split:
  "pad_or_split (replicate 45000 (0::nat)) ''uploads/recording.wav'' =
     Inr [(''recording_segment1.wav'', audio_slice (replicate 45000 0) 0 20000),
          (''recording_segment2.wav'', audio_slice (replicate 45000 0) 20000 40000),
          (''recording_segment3.wav'',
           audio_prefix (audio_mul (audio_suffix (replicate 45000 0) 5000) 5) 20000)]"
proof -
  have range: "[0..<2] = [0, Suc 0]" by (simp add: upt_rec)
  show ?thesis
    by (simp add: pad_or_split_def process_long_audio_def twenty_sec_ms_def Let_def range
        segment_names)
qed

text \<open>
  C6. A transcription failure on one segment should leave that segment with an empty text
  and NaN linguistic features, and the other segments should still be scored. In the code
  \<open>transcribe_audio\<close> returns \<open>None\<close> on a failure, and \<open>extract_linguistic_features\<close>
  calls \<open>transcription.strip()\<close> on it before its own \<open>try\<close>: the \<open>AttributeError\<close>
  leaves the loop over the segments, and the whole request ends with the error outcome
  (\<open>failed_transcription_aborts\<close>). Here a recording of 45 s gives three segments and
  recognition fails on the second one only.
\<close>

theorem failed_transcription_aborts_request:
  "transcribe_audio failing_asr_env
     (''recording_segment2.wav'', audio_slice (replicate 45000 0) 20000 40000) (Some ''en'')
     = Inr None
   \<and> extract_linguistic_features failing_asr_env None ''en'' = Inl AttributeError
   \<and> fst (run_pipeline failing_asr_env ''uploads/recording.wav'' ''en'' stub_world)
       = Inl AttributeError
   \<and> fst (predict_final_classification failing_asr_env ''uploads/recording.wav'' ''en''
            stub_world) = Inr ''Error: Could not classify audio.''
   \<and> predictions_csv (snd (predict_final_classification failing_asr_env
                              ''uploads/recording.wav'' ''en'' stub_world)) = None"
proof -
  let ?env = failing_asr_env
  let ?p = "''uploads/recording.wav''"
  let ?xs = "[(''recording_segment1.wav'', audio_slice (replicate 45000 (0::nat)) 0 20000),
          (''recording_segment2.wav'', audio_slice (replicate 45000 0) 20000 40000),
          (''recording_segment3.wav'',
           audio_prefix (audio_mul (audio_suffix (replicate 45000 0) 5000) 5) 20000)]"
  let ?w1 = "stub_world\<lparr>folder := Some ?xs, calls := calls stub_world @ [Decode ?p]\<rparr>"
  have t2: "transcribe_audio ?env
     (''recording_segment2.wav'', audio_slice (replicate 45000 0) 20000 40000) (Some ''en'')
     = Inr None"
    by (simp add: transcribe_audio_def failing_asr_env_def stub_env_def catchable_def)
  have none: "extract_linguistic_features ?env None ''en'' = Inl AttributeError"
    by (simp add: extract_linguistic_features_def)
  from segmentation_of_decoded[of ?p stub_world ?env "replicate 45000 0"]
  have seg: "process_single_audio_file ?env ?p stub_world = (Inr (), ?w1)"
    by (simp add: long_split stub_world_def failing_asr_env_def stub_env_def)
  have listing: "list_segments ?w1 = Inr ?xs"
    by (simp add: list_segments_def endswith_def)
  have lang: "load_language_model ?env ''en'' = Inr (Some ''en'')"
    by (simp add: load_language_model_def language_models_def failing_asr_env_def stub_env_def)
  have hello: "py_strip (py_lower ''hello'') = ''hello''" "py_strip ''hello'' = ''hello''"
    by code_simp+
  have acoustic: "extract_all_features ?env s = Inr [(''zcr'', Some 0.1)]" for s
    by (simp add: failing_asr_env_def stub_env_def)
  have first: "process_segment ?env (Some ''en'') ''en''
       (''recording_segment1.wav'', audio_slice (replicate 45000 0) 0 20000) =
     Inr \<lparr>file_name = ''recording_segment1.wav'', Prediction = 1, Probability = 0.28\<rparr>"
    by (simp add: process_segment_def segment_features_def score_segment_def predict_def
        transcribe_audio_def extract_linguistic_features_def scaler_transform_def
        select_columns_def failing_asr_env_def stub_env_def hello)
  have second: "process_segment ?env (Some ''en'') ''en''
       (''recording_segment2.wav'', audio_slice (replicate 45000 0) 20000 40000) =
     Inl AttributeError"
    by (simp add: process_segment_def segment_features_def acoustic t2 none)
  have loop: "process_segments ?env (Some ''en'') ''en'' ?xs = Inl AttributeError"
    by (simp add: first second)
  have pipe: "run_pipeline ?env ?p ''en'' stub_world = (Inl AttributeError, ?w1)"
    by (simp add: run_pipeline_def seg listing lang loop del: process_segments.simps)
  have fin: "fst (cleanup ?env ?w1) = Inr ()"
    by (rule stub_cleanup_returns) (simp_all add: failing_asr_env_def stub_env_def)
  have label: "fst (predict_final_classification ?env ?p ''en'' stub_world) =
      Inr ''Error: Could not classify audio.''"
    by (rule failed_request_label[OF pipe _ fin]) (simp add: catchable_def)
  have csv: "predictions_csv (snd (cleanup ?env ?w1)) = None"
    by (simp add: cleanup_def delete_directory_def safe_delete_file_def stub_world_def
        failing_asr_env_def stub_env_def recording_wav_def test_connection_wav_def)
  have "predictions_csv (snd (predict_final_classification ?env ?p ''en'' stub_world)) = None"
    using csv by (simp add: final_world pipe)
  then show ?thesis using t2 none pipe label by simp
qed

section \<open>Properties of the missing-value handling\<close>

lemma fillna_median_one_row: "fillna_median df = df"
proof -
  have "(case v of None \<Rightarrow> median_skipna [v] | Some x \<Rightarrow> Some x) = v" for v :: "real option"
    by (cases v) (simp_all add: median_skipna_def List.map_filter_simps)
  then show ?thesis by (simp add: fillna_median_def case_prod_beta)
qed

lemma blank_transcription_features:
  "extract_linguistic_features env (Some '' '') lang = Inr (nan_features env)"
proof -
  have "py_strip '' '' = []" by code_simp
  then show ?thesis by (simp add: extract_linguistic_features_def)
qed

text \<open>
  C7. No NaN should reach the scorer: missing values are to be replaced by the column
  medians before the scaler's transform. The loop of \<open>predict_final_classification\<close>
  hands \<open>combined_features\<close> to \<open>predict\<close> as built, and \<open>predict\<close> hands it to
  \<open>scaler.transform\<close>: nothing imputes in between. A segment whose transcription is
  blank gets NaN linguistic features, the NaN goes through the scaler to the classifier,
  which (here) rejects it, and the request ends with the error outcome.
\<close>

theorem nan_reaches_scorer:
  "segment_features silent_env (Some ''en'') ''en'' (''recording.wav'', replicate 20000 0) =
     Inr [(''zcr'', Some 0.1), (''t_word'', None)]
   \<and> scaler_transform silent_env [(''zcr'', Some 0.1), (''t_word'', None)] =
       Inr [Some 0.1, None]
   \<and> process_segment silent_env (Some ''en'') ''en'' (''recording.wav'', replicate 20000 0) =
       score_segment silent_env (''recording.wav'', replicate 20000 0)
         [(''zcr'', Some 0.1), (''t_word'', None)]
   \<and> process_segment silent_env (Some ''en'') ''en'' (''recording.wav'', replicate 20000 0) =
       Inl ValueError"
proof -
  let ?seg = "(''recording.wav'', replicate 20000 (0::nat))"
  let ?X = "[(''zcr'', Some (0.1::real)), (''t_word'', None)]"
  have blank: "py_strip (py_lower '' '') = []" "py_strip [] = []" by code_simp+
  have feats: "segment_features silent_env (Some ''en'') ''en'' ?seg = Inr ?X"
    by (simp add: segment_features_def transcribe_audio_def extract_linguistic_features_def
        nan_features_def silent_env_def stub_env_def blank)
  have scaled: "scaler_transform silent_env ?X = Inr [Some 0.1, None]"
    by (simp add: scaler_transform_def silent_env_def stub_env_def)
  have step: "process_segment silent_env (Some ''en'') ''en'' ?seg = score_segment silent_env ?seg ?X"
    by (simp add: process_segment_def feats)
  have scored: "score_segment silent_env ?seg ?X = Inl ValueError"
    by (simp add: score_segment_def predict_def scaled select_columns_def)
      (simp add: silent_env_def stub_env_def)
  show ?thesis using feats scaled step scored by simp
qed

section \<open>Properties of the cleanup\<close>











lemma load_audio_files: "files w \<subseteq> files (snd (load_audio env p w))"
  by (auto simp: load_audio_def reencode_audio_def Let_def split: sum.splits option.splits)

lemma clean_folder_files: "files (snd (clean_folder env w)) = files w"
  by (simp add: clean_folder_def split: option.splits)

lemma segmentation_files: "files w \<subseteq> files (snd (process_single_audio_file env p w))"
proof (cases "p \<in> files w")
  case False
  then show ?thesis by (simp add: process_single_audio_file_def)
next
  case True
  obtain r1 w1 where c: "clean_folder env w = (r1, w1)" by (cases "clean_folder env w")
  have f1: "files w1 = files w" using clean_folder_files[of env w] c by simp
  obtain r2 w2 where l: "load_audio env p w1 = (r2, w2)" by (cases "load_audio env p w1")
  have f2: "files w1 \<subseteq> files w2" using load_audio_files[of w1 env p] l by simp
  show ?thesis using True c l f1 f2
    by (auto simp: process_single_audio_file_def export_all_def split: sum.splits option.splits)
qed

lemma run_pipeline_files: "files w \<subseteq> files (snd (run_pipeline env p lang w))"
proof -
  have "files (snd (run_pipeline env p lang w)) = files (snd (process_single_audio_file env p w))"
    by (simp add: run_pipeline_def Let_def split: prod.splits sum.splits)
  then show ?thesis using segmentation_files by simp
qed

lemma cleanup_removes_only_fixed_names:
  "files w - {recording_wav, test_connection_wav} \<subseteq> files (snd (cleanup env w))"
  by (auto simp: cleanup_def delete_directory_def safe_delete_file_def
      split: option.splits sum.splits prod.splits if_splits)

text \<open>
  The \<open>finally\<close> block removes the two fixed upload names only: an upload saved under
  any other name, as backend/api/server.py saves it (\<open>recording_<timestamp>.wav\<close>),
  outlives the request that consumed it.
\<close>

lemma other_upload_survives:
  assumes "audio_file_path \<in> files w"
    and "audio_file_path \<noteq> recording_wav" and "audio_file_path \<noteq> test_connection_wav"
  shows "audio_file_path \<in> files (snd (predict_final_classification env audio_file_path lang w))"
proof -
  have "audio_file_path \<in> files (snd (run_pipeline env audio_file_path lang w))"
    using run_pipeline_files assms(1) by blast
  then have "audio_file_path \<in> files (snd (cleanup env (snd (run_pipeline env audio_file_path lang w))))"
    using cleanup_removes_only_fixed_names assms(2,3) by blast
  then show ?thesis by (simp add: final_world)
qed

end
